theory Spec2Isabelle
  imports Complex_Main "HOL-Library.Char_ord" "HOL-Library.List_Lexorder"
begin

section \<open>Values of the host language\<close>

text \<open>
  The dashboard (\<^verbatim>\<open>Home\<close>, the page component) and the gateway
  (\<^verbatim>\<open>pages/api/stock.ts\<close>) exchange JSON. A number is an IEEE double in the
  source. Here a finite double is the rational it denotes and arithmetic on finite
  values is exact: rounding, overflow and underflow of doubles are not modelled. The
  two zeros, the two infinities and NaN are kept, since division produces them.
\<close>

datatype jsnum = Finite rat | NegZero | PosInf | NegInf | NaN

text \<open>
  A parsed JSON value. An object is an association list in which the first binding
  of a key is the one the object holds. \<^verbatim>\<open>undefined\<close> is \<open>None\<close> of
  \<open>json option\<close>.
\<close>

datatype json =
    JNull
  | JBool bool
  | JNum jsnum
  | JStr string
  | JArr "json list"
  | JObj "(string \<times> json) list"

datatype exn = NetworkError | SyntaxError | TypeError

datatype 'a promise = Rejected exn | Resolved 'a

text \<open>Truthiness, as \<^verbatim>\<open>if (v)\<close>, \<^verbatim>\<open>!v\<close> and \<^verbatim>\<open>v || w\<close> test it.\<close>

fun truthy :: "json option \<Rightarrow> bool" where
  "truthy None = False"
| "truthy (Some JNull) = False"
| "truthy (Some (JBool b)) = b"
| "truthy (Some (JNum x)) = (x \<noteq> Finite 0 \<and> x \<noteq> NegZero \<and> x \<noteq> NaN)"
| "truthy (Some (JStr s)) = (s \<noteq> [])"
| "truthy (Some (JArr xs)) = True"
| "truthy (Some (JObj kvs)) = True"

text \<open>Decimal digits of a natural number, as an array index is written as a key.\<close>

definition digit :: "nat \<Rightarrow> char" where
  "digit d = ''0123456789'' ! d"

fun digits :: "nat \<Rightarrow> string" where
  "digits n = (if n < 10 then [digit n] else digits (n div 10) @ [digit (n mod 10)])"

declare digits.simps [simp del]

text \<open>
  \<^verbatim>\<open>Object.keys(v)\<close> for a value that is neither \<^verbatim>\<open>null\<close> nor
  \<^verbatim>\<open>undefined\<close>: the own keys of an object, the indices of an array or of a
  string, nothing for a number or a boolean.
\<close>

fun Object_keys :: "json \<Rightarrow> string list" where
  "Object_keys (JObj kvs) = remdups (map fst kvs)"
| "Object_keys (JArr xs) = map digits [0..<length xs]"
| "Object_keys (JStr s) = map digits [0..<length s]"
| "Object_keys v = []"

text \<open>
  \<^verbatim>\<open>v[k]\<close> for a value \<open>v\<close> that is neither \<^verbatim>\<open>null\<close> nor
  \<^verbatim>\<open>undefined\<close>. The program reads only keys that \<^verbatim>\<open>Object.keys\<close> returned
  and the provider's field names (\<^verbatim>\<open>'4. close'\<close>, \<^verbatim>\<open>'Note'\<close>, ...), none of
  which names a member of a prototype, so a key that is not an own key reads
  \<^verbatim>\<open>undefined\<close>.
\<close>

fun field :: "json \<Rightarrow> string \<Rightarrow> json option" where
  "field (JObj kvs) k = map_of kvs k"
| "field (JArr xs) k = map_of (zip (map digits [0..<length xs]) xs) k"
| "field (JStr s) k = map_of (zip (map digits [0..<length s]) (map (\<lambda>c. JStr [c]) s)) k"
| "field v k = None"

text \<open>\<^verbatim>\<open>v[k]\<close> in general: reading a property of \<^verbatim>\<open>null\<close> or \<^verbatim>\<open>undefined\<close> throws.\<close>

fun get :: "json option \<Rightarrow> string \<Rightarrow> exn + json option" where
  "get None k = Inl TypeError"
| "get (Some JNull) k = Inl TypeError"
| "get (Some v) k = Inr (field v k)"

subsection \<open>Arithmetic on numbers\<close>
















text \<open>An HTTP response as \<^verbatim>\<open>fetch\<close> resolves it: \<open>body_json\<close> is what
  \<^verbatim>\<open>response.json()\<close> parses from the body, \<open>None\<close> when the body is not JSON.\<close>

record response =
  status :: nat
  body_text :: string
  body_json :: "json option"

definition ok :: "response \<Rightarrow> bool" where
  "ok r = (200 \<le> status r \<and> status r \<le> 299)"

section \<open>The quote gateway\<close>

text \<open>\<^verbatim>\<open>req.query.symbol\<close>: absent, one value, or several values of the parameter.\<close>

datatype query_value = Absent | Single string | Several "string list"

definition upstream_url :: "string \<Rightarrow> string \<Rightarrow> string" where
  "upstream_url symbol API_KEY =
     ''https://www.alphavantage.co/query?function=TIME_SERIES_DAILY&symbol='' @ symbol
       @ ''&apikey='' @ API_KEY"

text \<open>
  The body \<^verbatim>\<open>{ error: msg }\<close> as \<^verbatim>\<open>res.json\<close> sends it: a property whose
  value is \<^verbatim>\<open>undefined\<close> is left out of the JSON text.
\<close>

fun error_body :: "json option \<Rightarrow> json" where
  "error_body None = JObj []"
| "error_body (Some msg) = JObj [(''error'', msg)]"

text \<open>
  \<^verbatim>\<open>handler\<close>: the status it sets and the value it hands to \<^verbatim>\<open>res.json\<close>.
  \<open>API_KEY\<close> is the environment variable, \<open>fetch\<close> the upstream. What it writes
  to the console is left out. \<open>classify\<close> is the part after \<^verbatim>\<open>response.json()\<close>:
  a body that is not JSON, and reading a property of \<^verbatim>\<open>null\<close>, throw into the
  \<^verbatim>\<open>catch\<close>.
\<close>

definition classify :: "json option \<Rightarrow> nat \<times> json" where
  "classify body =
     (case body of
        None \<Rightarrow> (500, error_body (Some (JStr ''Failed to fetch data'')))
      | Some JNull \<Rightarrow> (500, error_body (Some (JStr ''Failed to fetch data'')))
      | Some data \<Rightarrow>
          if truthy (field data ''Error Message'') then (500, error_body (field data ''Error Message''))
          else if truthy (field data ''Note'') then (429, error_body (field data ''Note''))
          else (200, data))"

definition handler :: "query_value \<Rightarrow> string option \<Rightarrow> (string \<Rightarrow> response promise) \<Rightarrow> nat \<times> json" where
  "handler query API_KEY fetch =
     (case query of
        Absent \<Rightarrow> (400, error_body (Some (JStr ''Missing symbol parameter'')))
      | Several vs \<Rightarrow> (400, error_body (Some (JStr ''Missing symbol parameter'')))
      | Single symbol \<Rightarrow>
          if symbol = [] then (400, error_body (Some (JStr ''Missing symbol parameter'')))
          else (case API_KEY of
                  None \<Rightarrow> (500, error_body (Some (JStr ''API key not set in environment variables'')))
                | Some key \<Rightarrow>
                    if key = [] then (500, error_body (Some (JStr ''API key not set in environment variables'')))
                    else (case fetch (upstream_url symbol key) of
                            Rejected e \<Rightarrow> (500, error_body (Some (JStr ''Failed to fetch data'')))
                          | Resolved r \<Rightarrow>
                              if \<not> ok r
                              then (status r, error_body (Some (JStr (''Alpha Vantage error: '' @ body_text r))))
                              else classify (body_json r))))"

section \<open>The dashboard controller\<close>

subsection \<open>State\<close>

text \<open>
  One bar of \<^verbatim>\<open>multiDayData\<close>, and \<^verbatim>\<open>StockData\<close>: the latest bar with the
  close of the day before.
\<close>

record DailyBar =
  date :: string
  "open" :: jsnum
  high :: jsnum
  low :: jsnum
  close :: jsnum
  volume :: jsnum

record StockData = DailyBar +
  prevClose :: "jsnum option"

text \<open>
  The state cells of \<^verbatim>\<open>Home\<close> that the operations below read and write.
  \<open>error\<close> is a JSON value because \<^verbatim>\<open>fetchStock\<close> stores a field of the
  gateway's reply in it unchecked.
\<close>

record state =
  symbol :: string
  stockData :: "StockData option"
  error :: json
  loading :: bool
  history :: "string list"
  favorites :: "string list"
  multiDayData :: "DailyBar list"

definition initial :: state where
  "initial = \<lparr>symbol = [], stockData = None, error = JStr [], loading = False,
     history = [], favorites = [], multiDayData = []\<rparr>"

subsection \<open>The two persisted lists\<close>


definition addToHistory :: "state \<Rightarrow> string \<Rightarrow> state" where
  "addToHistory st symb =
     st\<lparr>history := take 10 (symb # filter (\<lambda>h. h \<noteq> symb) (history st))\<rparr>"

text \<open>
  The two effects that restore the lists once on mount. \<open>getItem\<close> is
  \<^verbatim>\<open>localStorage.getItem\<close> (\<open>None\<close> for \<^verbatim>\<open>null\<close>; it is taken not to throw)
  and \<open>JSON_parse\<close> is \<^verbatim>\<open>JSON.parse\<close> (\<open>None\<close> when it throws). The parsed
  value is stored unchecked in a cell declared \<^verbatim>\<open>string[]\<close>: \<open>Inl v\<close> says that
  the cell now holds \<open>v\<close>, which is not an array of strings, so that the state
  is no longer one of the declared type; \<open>mount\<close> stops there.
\<close>

fun as_strings :: "json list \<Rightarrow> string list option" where
  "as_strings [] = Some []"
| "as_strings (JStr s # vs) = (case as_strings vs of None \<Rightarrow> None | Some ss \<Rightarrow> Some (s # ss))"
| "as_strings (v # vs) = None"

definition restored :: "(string \<Rightarrow> json option) \<Rightarrow> string option \<Rightarrow> string list \<Rightarrow> json + string list" where
  "restored JSON_parse item current =
     (case item of
        None \<Rightarrow> Inr current
      | Some text \<Rightarrow>
          if text = [] then Inr current
          else (case JSON_parse text of
                  None \<Rightarrow> Inr []
                | Some (JArr vs) \<Rightarrow>
                    (case as_strings vs of None \<Rightarrow> Inl (JArr vs) | Some ss \<Rightarrow> Inr ss)
                | Some v \<Rightarrow> Inl v))"

definition restoreHistory :: "(string \<Rightarrow> json option) \<Rightarrow> (string \<Rightarrow> string option) \<Rightarrow> state \<Rightarrow> json + state" where
  "restoreHistory JSON_parse getItem st =
     (case restored JSON_parse (getItem ''stockSearchHistory'') (history st) of
        Inl v \<Rightarrow> Inl v
      | Inr h \<Rightarrow> Inr (st\<lparr>history := h\<rparr>))"

definition restoreFavorites :: "(string \<Rightarrow> json option) \<Rightarrow> (string \<Rightarrow> string option) \<Rightarrow> state \<Rightarrow> json + state" where
  "restoreFavorites JSON_parse getItem st =
     (case restored JSON_parse (getItem ''stockFavorites'') (favorites st) of
        Inl v \<Rightarrow> Inl v
      | Inr f \<Rightarrow> Inr (st\<lparr>favorites := f\<rparr>))"

definition mount :: "(string \<Rightarrow> json option) \<Rightarrow> (string \<Rightarrow> string option) \<Rightarrow> state \<Rightarrow> json + state" where
  "mount JSON_parse getItem st =
     (case restoreHistory JSON_parse getItem st of
        Inl v \<Rightarrow> Inl v
      | Inr st' \<Rightarrow> restoreFavorites JSON_parse getItem st')"

subsection \<open>Fetching a quote\<close>

text \<open>
  \<^verbatim>\<open>fetchStock\<close> as the list of what it does, in order: the setters it calls and
  the request it sends. \<open>num\<close> is the unary \<^verbatim>\<open>+\<close> (the conversion of a value to a
  number) and \<open>fetch\<close> is the network.
\<close>

datatype effect =
    SetError json
  | SetStockData "StockData option"
  | SetMultiDayData "DailyBar list"
  | SetLoading bool
  | AddToHistory string
  | Request string

fun apply_effect :: "state \<Rightarrow> effect \<Rightarrow> state" where
  "apply_effect st (SetError e) = st\<lparr>error := e\<rparr>"
| "apply_effect st (SetStockData d) = st\<lparr>stockData := d\<rparr>"
| "apply_effect st (SetMultiDayData ds) = st\<lparr>multiDayData := ds\<rparr>"
| "apply_effect st (SetLoading b) = st\<lparr>loading := b\<rparr>"
| "apply_effect st (AddToHistory s) = addToHistory st s"
| "apply_effect st (Request url) = st"

text \<open>
  The object literal built from one entry \<open>d\<close> of the time series: each of the five
  reads \<^verbatim>\<open>d['1. open']\<close>, ... throws when \<open>d\<close> is \<^verbatim>\<open>null\<close> or
  \<^verbatim>\<open>undefined\<close>.
\<close>

definition readBar :: "(json option \<Rightarrow> jsnum) \<Rightarrow> string \<Rightarrow> json option \<Rightarrow> exn + DailyBar" where
  "readBar num day d =
     (case d of
        None \<Rightarrow> Inl TypeError
      | Some JNull \<Rightarrow> Inl TypeError
      | Some v \<Rightarrow>
          Inr \<lparr>date = day,
               open = num (field v ''1. open''),
               high = num (field v ''2. high''),
               low = num (field v ''3. low''),
               close = num (field v ''4. close''),
               volume = num (field v ''5. volume'')\<rparr>)"

text \<open>\<^verbatim>\<open>dates.slice(0, 10).map(date => ...)\<close>, stopping at the first entry that throws.\<close>

fun readBars :: "(json option \<Rightarrow> jsnum) \<Rightarrow> json \<Rightarrow> string list \<Rightarrow> exn + DailyBar list" where
  "readBars num timeSeries [] = Inr []"
| "readBars num timeSeries (day # days) =
     (case readBar num day (field timeSeries day) of
        Inl e \<Rightarrow> Inl e
      | Inr bar \<Rightarrow>
          (case readBars num timeSeries days of
             Inl e \<Rightarrow> Inl e
           | Inr bars \<Rightarrow> Inr (bar # bars)))"

text \<open>\<^verbatim>\<open>dates.length > 1 ? +timeSeries[dates[1]]['4. close'] : null\<close>\<close>

definition readPrevClose :: "(json option \<Rightarrow> jsnum) \<Rightarrow> json \<Rightarrow> string list \<Rightarrow> exn + jsnum option" where
  "readPrevClose num timeSeries dates =
     (if length dates > 1
      then (case get (field timeSeries (dates ! 1)) ''4. close'' of
              Inl e \<Rightarrow> Inl e
            | Inr c \<Rightarrow> Inr (Some (num c)))
      else Inr None)"

text \<open>
  From the sorted dates to the arguments of \<^verbatim>\<open>setStockData\<close> and
  \<^verbatim>\<open>setMultiDayData\<close>. With no date at all \<^verbatim>\<open>latestData\<close> is
  \<^verbatim>\<open>undefined\<close> and reading its fields throws.
\<close>

definition parseSeries :: "(json option \<Rightarrow> jsnum) \<Rightarrow> json \<Rightarrow> exn + StockData \<times> DailyBar list" where
  "parseSeries num timeSeries =
     (let dates = rev (sort (Object_keys timeSeries)) in
      case readBars num timeSeries (take 10 dates) of
        Inl e \<Rightarrow> Inl e
      | Inr multiDays \<Rightarrow>
          (case dates of
             [] \<Rightarrow> Inl TypeError
           | latestDate # older \<Rightarrow>
               (case readBar num latestDate (field timeSeries latestDate) of
                  Inl e \<Rightarrow> Inl e
                | Inr latest \<Rightarrow>
                    (case readPrevClose num timeSeries dates of
                       Inl e \<Rightarrow> Inl e
                     | Inr prev \<Rightarrow>
                         Inr (\<lparr>date = date latest, open = open latest, high = high latest,
                               low = low latest, close = close latest, volume = volume latest,
                               prevClose = prev\<rparr>, multiDays)))))"

definition gateway_url :: "string \<Rightarrow> string" where
  "gateway_url symb = ''/api/stock?symbol='' @ symb"

text \<open>\<^verbatim>\<open>v || w\<close> for a defined \<open>w\<close>.\<close>

fun or_else :: "json option \<Rightarrow> json \<Rightarrow> json" where
  "or_else None w = w"
| "or_else (Some v) w = (if truthy (Some v) then v else w)"

text \<open>
  The \<^verbatim>\<open>try\<close> block once the gateway has answered: the setters called, and
  whether the block returned early (\<open>True\<close>) or ran to its end; \<open>Inl\<close> when it
  threw. No setter is called before a throw.
\<close>

definition received :: "(json option \<Rightarrow> jsnum) \<Rightarrow> string \<Rightarrow> response \<Rightarrow> exn + effect list \<times> bool" where
  "received num symb res =
     (case body_json res of
        None \<Rightarrow> Inl SyntaxError
      | Some data \<Rightarrow>
          if ok res then
            (case get (Some data) ''Time Series (Daily)'' of
               Inl e \<Rightarrow> Inl e
             | Inr None \<Rightarrow>
                 Inr ([SetError (JStr ''No time series data available for this symbol''),
                       SetLoading False], True)
             | Inr (Some timeSeries) \<Rightarrow>
                 if \<not> truthy (Some timeSeries)
                 then Inr ([SetError (JStr ''No time series data available for this symbol''),
                            SetLoading False], True)
                 else (case parseSeries num timeSeries of
                         Inl e \<Rightarrow> Inl e
                       | Inr (stock, multiDays) \<Rightarrow>
                           Inr ([SetStockData (Some stock), SetMultiDayData multiDays,
                                 AddToHistory symb], False)))
          else
            (case get (Some data) ''Error Message'' of
               Inl e \<Rightarrow> Inl e
             | Inr msg \<Rightarrow> Inr ([SetError (or_else msg (JStr ''Failed to fetch stock data''))], False)))"

definition fetchStock :: "(json option \<Rightarrow> jsnum) \<Rightarrow> (string \<Rightarrow> response promise) \<Rightarrow> state \<Rightarrow> effect list" where
  "fetchStock num fetch st =
     [SetError (JStr []), SetStockData None, SetMultiDayData []] @
     (if symbol st = [] then [SetError (JStr ''Please enter a stock symbol'')]
      else
        [SetLoading True, Request (gateway_url (symbol st))] @
        (case (case fetch (gateway_url (symbol st)) of
                 Rejected e \<Rightarrow> Inl e
               | Resolved res \<Rightarrow> received num (symbol st) res) of
           Inl e \<Rightarrow> [SetError (JStr ''Error fetching stock data''), SetLoading False]
         | Inr (effects, returned) \<Rightarrow>
             if returned then effects else effects @ [SetLoading False]))"

text \<open>The state after \<^verbatim>\<open>fetchStock\<close> has run.\<close>

definition fetched :: "(json option \<Rightarrow> jsnum) \<Rightarrow> (string \<Rightarrow> response promise) \<Rightarrow> state \<Rightarrow> state" where
  "fetched num fetch st = foldl apply_effect st (fetchStock num fetch st)"

subsection \<open>The change indicator\<close>




subsection \<open>Worked examples\<close>

text \<open>
  The theorems below hold for every conversion \<open>num\<close>. For concrete payloads a
  conversion is needed that computes: \<open>toNumber\<close> gives what the unary \<^verbatim>\<open>+\<close>
  gives for \<^verbatim>\<open>undefined\<close>, \<^verbatim>\<open>null\<close>, booleans, numbers, the empty string and
  strings of the form digits, point, digits (one of the two digit groups may be
  empty), which is how the provider writes prices and volumes. It answers \<open>NaN\<close>
  for every other value, which is not the language's answer for all of them; it
  is used on the payloads of the examples only.
\<close>

fun digits_value :: "string \<Rightarrow> nat option" where
  "digits_value [] = Some 0"
| "digits_value (c # cs) =
     (if c \<in> set ''0123456789''
      then (case digits_value cs of
              None \<Rightarrow> None
            | Some n \<Rightarrow> Some ((of_char c - 48) * 10 ^ length cs + n))
      else None)"

definition read_decimal :: "string \<Rightarrow> rat option" where
  "read_decimal s =
     (let whole = takeWhile (\<lambda>c. c \<noteq> CHR ''.'') s;
          rest = dropWhile (\<lambda>c. c \<noteq> CHR ''.'') s;
          frac = (if rest = [] then [] else tl rest)
      in if whole = [] \<and> frac = [] then None
         else (case (digits_value whole, digits_value frac) of
                 (Some a, Some b) \<Rightarrow> Some (of_nat a + of_nat b / 10 ^ length frac)
               | _ \<Rightarrow> None))"

fun toNumber :: "json option \<Rightarrow> jsnum" where
  "toNumber None = NaN"
| "toNumber (Some JNull) = Finite 0"
| "toNumber (Some (JBool b)) = (if b then Finite 1 else Finite 0)"
| "toNumber (Some (JNum x)) = x"
| "toNumber (Some (JStr s)) =
     (if s = [] then Finite 0
      else (case read_decimal s of Some q \<Rightarrow> Finite q | None \<Rightarrow> NaN))"
| "toNumber (Some v) = NaN"

text \<open>The payload of the specification's own example: two days.\<close>

definition example_payload :: json where
  "example_payload =
     JObj [(''Time Series (Daily)'',
       JObj [(''2024-01-02'', JObj [(''1. open'', JStr ''10''), (''2. high'', JStr ''12''),
                (''3. low'', JStr ''9''), (''4. close'', JStr ''11''), (''5. volume'', JStr ''100'')]),
             (''2024-01-01'', JObj [(''1. open'', JStr ''9''), (''2. high'', JStr ''10''),
                (''3. low'', JStr ''8''), (''4. close'', JStr ''9.5''), (''5. volume'', JStr ''80'')])])]"

text \<open>A payload of eleven days, in no particular order, with closing prices only.\<close>

definition busy_payload :: json where
  "busy_payload =
     JObj [(''Time Series (Daily)'',
       JObj [(''2024-01-03'', JObj [(''4. close'', JStr ''3'')]),
             (''2024-01-11'', JObj [(''4. close'', JStr ''11'')]),
             (''2024-01-01'', JObj [(''4. close'', JStr ''1'')]),
             (''2024-01-07'', JObj [(''4. close'', JStr ''7'')]),
             (''2024-01-05'', JObj [(''4. close'', JStr ''5'')]),
             (''2024-01-02'', JObj [(''4. close'', JStr ''2'')]),
             (''2024-01-09'', JObj [(''4. close'', JStr ''9'')]),
             (''2024-01-04'', JObj [(''4. close'', JStr ''4'')]),
             (''2024-01-10'', JObj [(''4. close'', JStr ''10'')]),
             (''2024-01-06'', JObj [(''4. close'', JStr ''6'')]),
             (''2024-01-08'', JObj [(''4. close'', JStr ''8'')])])]"

section \<open>The gateway answers\<close>

lemma classify_not_null:
  "data \<noteq> JNull \<Longrightarrow> classify (Some data) =
     (if truthy (field data ''Error Message'') then (500, error_body (field data ''Error Message''))
      else if truthy (field data ''Note'') then (429, error_body (field data ''Note''))
      else (200, data))"
  by (cases data) (simp_all add: classify_def)

lemma truthy_Some: "truthy v \<Longrightarrow> \<exists>msg. v = Some msg"
  by (cases v) simp_all

lemma handler_forwards:
  "symb \<noteq> [] \<Longrightarrow> key \<noteq> [] \<Longrightarrow> fetch (upstream_url symb key) = Resolved r \<Longrightarrow>
   handler (Single symb) (Some key) fetch =
     (if \<not> ok r then (status r, error_body (Some (JStr (''Alpha Vantage error: '' @ body_text r))))
      else classify (body_json r))"
  by (simp add: handler_def)

lemma handler_rejected:
  "symb \<noteq> [] \<Longrightarrow> key \<noteq> [] \<Longrightarrow> fetch (upstream_url symb key) = Rejected e \<Longrightarrow>
   handler (Single symb) (Some key) fetch = (500, error_body (Some (JStr ''Failed to fetch data'')))"
  by (simp add: handler_def)

text \<open>
  C3 as stated says that the body is \<^verbatim>\<open>{error: t}\<close> with the upstream text
  unmodified. For the upstream response 503 with body \<^verbatim>\<open>down\<close> the handler
  answers \<^verbatim>\<open>{error: "Alpha Vantage error: down"}\<close>, not \<^verbatim>\<open>{error: "down"}\<close>.
\<close>

theorem gateway_error_body_counterexample:
  "handler (Single ''IBM'') (Some ''demo'')
      (\<lambda>url. Resolved \<lparr>status = 503, body_text = ''down'', body_json = None\<rparr>)
     = (503, JObj [(''error'', JStr ''Alpha Vantage error: down'')])
   \<and> handler (Single ''IBM'') (Some ''demo'')
      (\<lambda>url. Resolved \<lparr>status = 503, body_text = ''down'', body_json = None\<rparr>)
     \<noteq> (503, JObj [(''error'', JStr ''down'')])"
  by (simp add: handler_def ok_def)

text \<open>
  C3, as the code has it. A response of the upstream that is not 2xx, with status
  \<open>s\<close> and body text \<open>t\<close>, is answered with status \<open>s\<close> and the body
  \<^verbatim>\<open>{error: "Alpha Vantage error: " + t}\<close>. A transport failure (\<^verbatim>\<open>fetch\<close>
  throws) has no status and no body: it is answered with status 500 and
  \<^verbatim>\<open>{error: "Failed to fetch data"}\<close>.
\<close>

theorem gateway_upstream_failure:
  "symb \<noteq> [] \<and> key \<noteq> [] \<longrightarrow>
     (fetch (upstream_url symb key) = Resolved r \<and> \<not> ok r \<longrightarrow>
        handler (Single symb) (Some key) fetch
          = (status r, JObj [(''error'', JStr (''Alpha Vantage error: '' @ body_text r))]))
     \<and> (fetch (upstream_url symb key) = Rejected e \<longrightarrow>
        handler (Single symb) (Some key) fetch
          = (500, JObj [(''error'', JStr ''Failed to fetch data'')]))"
  by (simp add: handler_forwards handler_rejected)

theorem gateway_upstream_failure_witness:
  "handler (Single ''IBM'') (Some ''demo'')
      (\<lambda>url. Resolved \<lparr>status = 404, body_text = ''not found'', body_json = None\<rparr>)
     = (404, JObj [(''error'', JStr ''Alpha Vantage error: not found'')])
   \<and> handler (Single ''IBM'') (Some ''demo'') (\<lambda>url. Rejected NetworkError)
     = (500, JObj [(''error'', JStr ''Failed to fetch data'')])"
proof -
  let ?r = "\<lparr>status = 404, body_text = ''not found'', body_json = None\<rparr>"
  have a: "''IBM'' \<noteq> [] \<and> ''demo'' \<noteq> []" by simp
  have b: "\<not> ok ?r" by (simp add: ok_def)
  have c: "body_text ?r = ''not found'' \<and> status ?r = 404" by simp
  from gateway_upstream_failure [of "''IBM''" "''demo''" "\<lambda>url. Resolved ?r" ?r NetworkError] a b c
  have 1: "handler (Single ''IBM'') (Some ''demo'') (\<lambda>url. Resolved ?r)
     = (404, JObj [(''error'', JStr ''Alpha Vantage error: not found'')])" by simp
  from gateway_upstream_failure [of "''IBM''" "''demo''" "\<lambda>url. Rejected NetworkError" ?r NetworkError] a
  have 2: "handler (Single ''IBM'') (Some ''demo'') (\<lambda>url. Rejected NetworkError)
     = (500, JObj [(''error'', JStr ''Failed to fetch data'')])" by simp
  from 1 2 show ?thesis by blast
qed

text \<open>
  C5 as stated covers every 2xx JSON payload. The payload \<^verbatim>\<open>null\<close> has neither
  field, yet it is not answered with status 200 and the payload: reading a field of
  \<^verbatim>\<open>null\<close> throws, and the handler answers 500.
\<close>

theorem gateway_null_payload_counterexample:
  "handler (Single ''IBM'') (Some ''demo'')
      (\<lambda>url. Resolved \<lparr>status = 200, body_text = ''null'', body_json = Some JNull\<rparr>)
     = (500, JObj [(''error'', JStr ''Failed to fetch data'')])
   \<and> handler (Single ''IBM'') (Some ''demo'')
      (\<lambda>url. Resolved \<lparr>status = 200, body_text = ''null'', body_json = Some JNull\<rparr>)
     \<noteq> (200, JNull)"
  by (simp add: handler_def ok_def classify_def)

text \<open>
  C5, as the code has it. A 2xx response whose body parses to a JSON value other than
  \<^verbatim>\<open>null\<close> is classified in this order: a truthy \<^verbatim>\<open>Error Message\<close> field
  gives status 500 and \<^verbatim>\<open>{error: message}\<close>; otherwise a truthy \<^verbatim>\<open>Note\<close>
  field gives status 429 and \<^verbatim>\<open>{error: message}\<close>; otherwise the answer is
  status 200 and the payload itself. In particular the payload
  \<^verbatim>\<open>{"Note": "rate limited"}\<close> gives 429 and \<^verbatim>\<open>{"error": "rate limited"}\<close>.
\<close>

theorem gateway_classification:
  "symb \<noteq> [] \<and> key \<noteq> [] \<and> fetch (upstream_url symb key) = Resolved r \<and> ok r
     \<and> body_json r = Some data \<and> data \<noteq> JNull \<longrightarrow>
     (truthy (field data ''Error Message'') \<longrightarrow>
        (\<exists>msg. field data ''Error Message'' = Some msg
           \<and> handler (Single symb) (Some key) fetch = (500, JObj [(''error'', msg)])))
     \<and> (\<not> truthy (field data ''Error Message'') \<and> truthy (field data ''Note'') \<longrightarrow>
        (\<exists>msg. field data ''Note'' = Some msg
           \<and> handler (Single symb) (Some key) fetch = (429, JObj [(''error'', msg)])))
     \<and> (\<not> truthy (field data ''Error Message'') \<and> \<not> truthy (field data ''Note'') \<longrightarrow>
        handler (Single symb) (Some key) fetch = (200, data))
     \<and> (data = JObj [(''Note'', JStr ''rate limited'')] \<longrightarrow>
        handler (Single symb) (Some key) fetch = (429, JObj [(''error'', JStr ''rate limited'')]))"
proof (intro impI)
  assume h: "symb \<noteq> [] \<and> key \<noteq> [] \<and> fetch (upstream_url symb key) = Resolved r \<and> ok r
     \<and> body_json r = Some data \<and> data \<noteq> JNull"
  then have eq: "handler (Single symb) (Some key) fetch =
     (if truthy (field data ''Error Message'') then (500, error_body (field data ''Error Message''))
      else if truthy (field data ''Note'') then (429, error_body (field data ''Note''))
      else (200, data))"
    using handler_forwards [of symb key fetch r] classify_not_null [of data] by simp
  have 1: "truthy (field data ''Error Message'') \<longrightarrow>
        (\<exists>msg. field data ''Error Message'' = Some msg
           \<and> handler (Single symb) (Some key) fetch = (500, JObj [(''error'', msg)]))"
    using eq truthy_Some [of "field data ''Error Message''"] by auto
  have 2: "\<not> truthy (field data ''Error Message'') \<and> truthy (field data ''Note'') \<longrightarrow>
        (\<exists>msg. field data ''Note'' = Some msg
           \<and> handler (Single symb) (Some key) fetch = (429, JObj [(''error'', msg)]))"
    using eq truthy_Some [of "field data ''Note''"] by auto
  have 3: "\<not> truthy (field data ''Error Message'') \<and> \<not> truthy (field data ''Note'') \<longrightarrow>
        handler (Single symb) (Some key) fetch = (200, data)"
    using eq by simp
  have 4: "data = JObj [(''Note'', JStr ''rate limited'')] \<longrightarrow>
        handler (Single symb) (Some key) fetch = (429, JObj [(''error'', JStr ''rate limited'')])"
    using eq by simp
  from 1 2 3 4 show "(truthy (field data ''Error Message'') \<longrightarrow>
        (\<exists>msg. field data ''Error Message'' = Some msg
           \<and> handler (Single symb) (Some key) fetch = (500, JObj [(''error'', msg)])))
     \<and> (\<not> truthy (field data ''Error Message'') \<and> truthy (field data ''Note'') \<longrightarrow>
        (\<exists>msg. field data ''Note'' = Some msg
           \<and> handler (Single symb) (Some key) fetch = (429, JObj [(''error'', msg)])))
     \<and> (\<not> truthy (field data ''Error Message'') \<and> \<not> truthy (field data ''Note'') \<longrightarrow>
        handler (Single symb) (Some key) fetch = (200, data))
     \<and> (data = JObj [(''Note'', JStr ''rate limited'')] \<longrightarrow>
        handler (Single symb) (Some key) fetch = (429, JObj [(''error'', JStr ''rate limited'')]))"
    by blast
qed


theorem gateway_classification_witness:
  "handler (Single ''IBM'') (Some ''demo'')
      (\<lambda>url. Resolved \<lparr>status = 200, body_text = [],
          body_json = Some (JObj [(''Error Message'', JStr ''Invalid API call''), (''Note'', JStr ''slow down'')])\<rparr>)
     = (500, JObj [(''error'', JStr ''Invalid API call'')])
   \<and> handler (Single ''IBM'') (Some ''demo'')
      (\<lambda>url. Resolved \<lparr>status = 200, body_text = [],
          body_json = Some (JObj [(''Note'', JStr ''rate limited'')])\<rparr>)
     = (429, JObj [(''error'', JStr ''rate limited'')])
   \<and> handler (Single ''IBM'') (Some ''demo'')
      (\<lambda>url. Resolved \<lparr>status = 200, body_text = [],
          body_json = Some (JObj [(''Time Series (Daily)'', JObj [])])\<rparr>)
     = (200, JObj [(''Time Series (Daily)'', JObj [])])"
proof -
  let ?e = "JObj [(''Error Message'', JStr ''Invalid API call''), (''Note'', JStr ''slow down'')]"
  let ?n = "JObj [(''Note'', JStr ''rate limited'')]"
  let ?p = "JObj [(''Time Series (Daily)'', JObj [])]"
  have sk: "''IBM'' \<noteq> [] \<and> ''demo'' \<noteq> []" by simp
  have okr: "\<And>d. ok \<lparr>status = 200, body_text = [], body_json = Some d\<rparr>"
    by (simp add: ok_def)
  have e: "truthy (field ?e ''Error Message'') \<and> field ?e ''Error Message'' = Some (JStr ''Invalid API call'')"
    by simp
  have n: "\<not> truthy (field ?n ''Error Message'') \<and> truthy (field ?n ''Note'')
      \<and> field ?n ''Note'' = Some (JStr ''rate limited'')"
    by simp
  have p: "\<not> truthy (field ?p ''Error Message'') \<and> \<not> truthy (field ?p ''Note'')"
    by simp
  have 1: "handler (Single ''IBM'') (Some ''demo'')
      (\<lambda>url. Resolved \<lparr>status = 200, body_text = [], body_json = Some ?e\<rparr>)
     = (500, JObj [(''error'', JStr ''Invalid API call'')])"
    using gateway_classification [of "''IBM''" "''demo''"
        "\<lambda>url. Resolved \<lparr>status = 200, body_text = [], body_json = Some ?e\<rparr>"
        "\<lparr>status = 200, body_text = [], body_json = Some ?e\<rparr>" ?e] sk okr [of ?e] e
    by simp
  have 2: "handler (Single ''IBM'') (Some ''demo'')
      (\<lambda>url. Resolved \<lparr>status = 200, body_text = [], body_json = Some ?n\<rparr>)
     = (429, JObj [(''error'', JStr ''rate limited'')])"
    using gateway_classification [of "''IBM''" "''demo''"
        "\<lambda>url. Resolved \<lparr>status = 200, body_text = [], body_json = Some ?n\<rparr>"
        "\<lparr>status = 200, body_text = [], body_json = Some ?n\<rparr>" ?n] sk okr [of ?n] n
    by simp
  have 3: "handler (Single ''IBM'') (Some ''demo'')
      (\<lambda>url. Resolved \<lparr>status = 200, body_text = [], body_json = Some ?p\<rparr>)
     = (200, ?p)"
    using gateway_classification [of "''IBM''" "''demo''"
        "\<lambda>url. Resolved \<lparr>status = 200, body_text = [], body_json = Some ?p\<rparr>"
        "\<lparr>status = 200, body_text = [], body_json = Some ?p\<rparr>" ?p] sk okr [of ?p] p
    by simp
  from 1 2 3 show ?thesis by blast
qed

section \<open>Search history\<close>

lemma addToHistory_history:
  "history (addToHistory st s) = take 10 (s # filter (\<lambda>h. h \<noteq> s) (history st))"
  by (simp add: addToHistory_def)

lemma addToHistory_length: "length (history (addToHistory st s)) \<le> 10"
  by (simp add: addToHistory_history)

lemma addToHistory_distinct: "distinct (history st) \<Longrightarrow> distinct (history (addToHistory st s))"
  by (auto simp: addToHistory_history dest: in_set_takeD)

lemma history_invariant_foldl:
  "distinct (history st) \<and> length (history st) \<le> 10 \<Longrightarrow>
   distinct (history (foldl addToHistory st syms)) \<and> length (history (foldl addToHistory st syms)) \<le> 10"
proof (induction syms arbitrary: st)
  case Nil
  then show ?case by simp
next
  case (Cons s syms)
  have "distinct (history (addToHistory st s)) \<and> length (history (addToHistory st s)) \<le> 10"
    using Cons.prems addToHistory_distinct addToHistory_length by blast
  then show ?case using Cons.IH by simp
qed

lemma filter_neq_removeAll: "filter (\<lambda>x. x \<noteq> s) xs = removeAll s xs"
  by (induction xs) auto

text \<open>
  C2. Starting from a history without duplicates and of at most 10 symbols, any
  sequence of appends leaves a history without duplicates and of at most 10 symbols.
  One append puts the symbol first, followed by the first nine of the other symbols
  of the old history in their old order.
\<close>

theorem history_bounded_distinct:
  "distinct (history st) \<and> length (history st) \<le> 10 \<longrightarrow>
     distinct (history (foldl addToHistory st syms))
     \<and> length (history (foldl addToHistory st syms)) \<le> 10
     \<and> history (addToHistory st symb) = symb # take 9 (removeAll symb (history st))"
proof -
  have "history (addToHistory st symb) = symb # take 9 (removeAll symb (history st))"
    by (simp add: addToHistory_history filter_neq_removeAll)
  then show ?thesis using history_invariant_foldl [of st syms] by blast
qed

theorem history_bounded_distinct_witness:
  "history (foldl addToHistory
       (initial\<lparr>history := [''A'', ''B'', ''C'', ''D'', ''E'', ''F'', ''G'', ''H'', ''I'', ''J'']\<rparr>)
       [''E'', ''K''])
     = [''K'', ''E'', ''A'', ''B'', ''C'', ''D'', ''F'', ''G'', ''H'', ''I'']
   \<and> distinct (history (foldl addToHistory
       (initial\<lparr>history := [''A'', ''B'', ''C'', ''D'', ''E'', ''F'', ''G'', ''H'', ''I'', ''J'']\<rparr>)
       [''E'', ''K'']))
   \<and> length (history (foldl addToHistory
       (initial\<lparr>history := [''A'', ''B'', ''C'', ''D'', ''E'', ''F'', ''G'', ''H'', ''I'', ''J'']\<rparr>)
       [''E'', ''K''])) \<le> 10"
proof -
  let ?st = "initial\<lparr>history := [''A'', ''B'', ''C'', ''D'', ''E'', ''F'', ''G'', ''H'', ''I'', ''J'']\<rparr>"
  have pre: "distinct (history ?st) \<and> length (history ?st) \<le> 10"
    by simp
  have run: "history (foldl addToHistory ?st [''E'', ''K''])
     = [''K'', ''E'', ''A'', ''B'', ''C'', ''D'', ''F'', ''G'', ''H'', ''I'']"
    by (simp add: addToHistory_def)
  show ?thesis
    using history_bounded_distinct [of ?st "[''E'', ''K'']" "''K''"] pre run by blast
qed


section \<open>Favorites\<close>


section \<open>Keys of a JSON value\<close>

lemma digit_inj: "a < 10 \<Longrightarrow> b < 10 \<Longrightarrow> digit a = digit b \<Longrightarrow> a = b"
proof -
  assume a: "a < 10" and b: "b < 10" and e: "digit a = digit b"
  have A: "a \<in> {0,1,2,3,4,5,6,7,8,9}" using a by auto
  have B: "b \<in> {0,1,2,3,4,5,6,7,8,9}" using b by auto
  show ?thesis using A B e by (auto simp: digit_def)
qed

lemma digits_length_one: "(length (digits n) = 1) = (n < 10)"
proof (cases "n < 10")
  case True
  then show ?thesis by (simp add: digits.simps [of n])
next
  case False
  have "digits (n div 10) \<noteq> []"
    by (subst digits.simps) simp
  then show ?thesis using False by (simp add: digits.simps [of n])
qed

lemma digits_inj: "digits n = digits m \<Longrightarrow> n = m"
proof (induction n arbitrary: m rule: digits.induct)
  case (1 n)
  show ?case
  proof (cases "n < 10")
    case True
    then have "length (digits m) = 1" using "1.prems" digits_length_one [of n] by simp
    then have m: "m < 10" using digits_length_one [of m] by simp
    then show ?thesis using True "1.prems" digit_inj
      by (simp add: digits.simps [of n] digits.simps [of m])
  next
    case False
    then have "length (digits m) \<noteq> 1" using "1.prems" digits_length_one [of n] by simp
    then have m: "\<not> m < 10" using digits_length_one [of m] by simp
    from False m "1.prems"
    have eq: "digits (n div 10) @ [digit (n mod 10)] = digits (m div 10) @ [digit (m mod 10)]"
      by (simp add: digits.simps [of n] digits.simps [of m])
    then have "digits (n div 10) = digits (m div 10)" and d: "digit (n mod 10) = digit (m mod 10)"
      by simp_all
    then have "n div 10 = m div 10" using "1.IH" False by blast
    moreover have "n mod 10 = m mod 10" using d digit_inj [of "n mod 10" "m mod 10"] by simp
    ultimately show ?thesis by (metis div_mult_mod_eq)
  qed
qed

lemma distinct_Object_keys: "distinct (Object_keys v)"
proof (cases v)
  case (JArr xs)
  then show ?thesis by (simp add: distinct_map inj_on_def digits_inj)
next
  case (JStr s)
  then show ?thesis by (simp add: distinct_map inj_on_def digits_inj)
qed simp_all


section \<open>Fetching with an empty symbol\<close>

lemma fetchStock_empty:
  "symbol st = [] \<Longrightarrow> fetchStock num fetch st =
     [SetError (JStr []), SetStockData None, SetMultiDayData [],
      SetError (JStr ''Please enter a stock symbol'')]"
  by (simp add: fetchStock_def)

text \<open>
  C6. With an empty symbol \<^verbatim>\<open>fetchStock\<close> ends with the error message
  \<^verbatim>\<open>Please enter a stock symbol\<close> and no snapshot, sends no request to the
  gateway, and ends in the same state whatever the network would have answered.
\<close>

theorem empty_symbol_is_rejected:
  "symbol st = [] \<longrightarrow>
     error (fetched num fetch st) = JStr ''Please enter a stock symbol''
     \<and> stockData (fetched num fetch st) = None
     \<and> (\<forall>url. Request url \<notin> set (fetchStock num fetch st))
     \<and> fetched num fetch st = fetched num fetch' st"
  by (auto simp: fetched_def fetchStock_empty)

theorem empty_symbol_is_rejected_witness:
  "error (fetched (\<lambda>v. NaN) (\<lambda>url. Rejected NetworkError) (initial\<lparr>error := JStr ''old''\<rparr>))
     = JStr ''Please enter a stock symbol''
   \<and> stockData (fetched (\<lambda>v. NaN) (\<lambda>url. Rejected NetworkError) (initial\<lparr>error := JStr ''old''\<rparr>))
     = None
   \<and> (\<forall>url. Request url
        \<notin> set (fetchStock (\<lambda>v. NaN) (\<lambda>url. Rejected NetworkError) (initial\<lparr>error := JStr ''old''\<rparr>)))"
proof -
  have "symbol (initial\<lparr>error := JStr ''old''\<rparr>) = []" by (simp add: initial_def)
  then show ?thesis
    using empty_symbol_is_rejected
      [of "initial\<lparr>error := JStr ''old''\<rparr>" "\<lambda>v. NaN" "\<lambda>url. Rejected NetworkError"
          "\<lambda>url. Rejected NetworkError"]
    by blast
qed

text \<open>
  C9. Every run of \<^verbatim>\<open>fetchStock\<close> starts by clearing the error message, the
  snapshot and the series, before it looks at the symbol. So with an empty symbol
  the snapshot and the series shown before are gone when the validation error is
  set, and the loading flag is never written.
\<close>

theorem fetch_clears_before_validating:
  "(\<exists>rest. fetchStock num fetch st = [SetError (JStr []), SetStockData None, SetMultiDayData []] @ rest)
   \<and> (symbol st = [] \<longrightarrow>
        fetchStock num fetch st =
          [SetError (JStr []), SetStockData None, SetMultiDayData [],
           SetError (JStr ''Please enter a stock symbol'')]
        \<and> stockData (fetched num fetch st) = None
        \<and> multiDayData (fetched num fetch st) = []
        \<and> (\<forall>b. SetLoading b \<notin> set (fetchStock num fetch st))
        \<and> loading (fetched num fetch st) = loading st)"
  by (auto simp: fetched_def fetchStock_def)

theorem fetch_clears_before_validating_witness:
  "fetchStock (\<lambda>v. NaN) (\<lambda>url. Rejected NetworkError)
       (initial\<lparr>loading := True, multiDayData := [\<lparr>date = ''2024-01-02'', open = Finite 10,
           high = Finite 12, low = Finite 9, close = Finite 11, volume = Finite 100\<rparr>]\<rparr>)
     = [SetError (JStr []), SetStockData None, SetMultiDayData [],
        SetError (JStr ''Please enter a stock symbol'')]
   \<and> multiDayData (fetched (\<lambda>v. NaN) (\<lambda>url. Rejected NetworkError)
       (initial\<lparr>loading := True, multiDayData := [\<lparr>date = ''2024-01-02'', open = Finite 10,
           high = Finite 12, low = Finite 9, close = Finite 11, volume = Finite 100\<rparr>]\<rparr>)) = []
   \<and> loading (fetched (\<lambda>v. NaN) (\<lambda>url. Rejected NetworkError)
       (initial\<lparr>loading := True, multiDayData := [\<lparr>date = ''2024-01-02'', open = Finite 10,
           high = Finite 12, low = Finite 9, close = Finite 11, volume = Finite 100\<rparr>]\<rparr>)) = True"
proof -
  let ?st = "initial\<lparr>loading := True, multiDayData := [\<lparr>date = ''2024-01-02'', open = Finite 10,
           high = Finite 12, low = Finite 9, close = Finite 11, volume = Finite 100\<rparr>]\<rparr>"
  have "symbol ?st = [] \<and> loading ?st = True" by (simp add: initial_def)
  then show ?thesis
    using fetch_clears_before_validating [of "\<lambda>v. NaN" "\<lambda>url. Rejected NetworkError" ?st]
    by simp
qed

section \<open>Restoring the lists\<close>

lemma restored_missing:
  "item = None \<or> (\<exists>t. item = Some t \<and> JSON_parse t = None) \<Longrightarrow>
   restored JSON_parse item [] = Inr []"
  by (auto simp: restored_def)

lemma restoreHistory_error:
  "restoreHistory JSON_parse getItem st = Inr st' \<Longrightarrow> error st' = error st \<and> favorites st' = favorites st"
  by (auto simp: restoreHistory_def split: sum.splits)

lemma restoreFavorites_error:
  "restoreFavorites JSON_parse getItem st = Inr st' \<Longrightarrow> error st' = error st \<and> history st' = history st"
  by (auto simp: restoreFavorites_def split: sum.splits)

text \<open>
  C10. On mount, from the initial state: when the stored value of a list is absent,
  or \<^verbatim>\<open>JSON.parse\<close> throws on it, that list stays the empty list and the
  outcome of the mount is that of restoring the other list alone. The error
  message is not written by either effect.
\<close>

theorem restore_defaults_to_empty:
  "(getItem ''stockSearchHistory'' = None
      \<or> (\<exists>t. getItem ''stockSearchHistory'' = Some t \<and> JSON_parse t = None) \<longrightarrow>
        restoreHistory JSON_parse getItem initial = Inr initial
        \<and> mount JSON_parse getItem initial = restoreFavorites JSON_parse getItem initial)
   \<and> (getItem ''stockFavorites'' = None
      \<or> (\<exists>t. getItem ''stockFavorites'' = Some t \<and> JSON_parse t = None) \<longrightarrow>
        restoreFavorites JSON_parse getItem initial = Inr initial
        \<and> mount JSON_parse getItem initial = restoreHistory JSON_parse getItem initial)
   \<and> (mount JSON_parse getItem st = Inr st' \<longrightarrow> error st' = error st)"
proof -
  have h: "getItem ''stockSearchHistory'' = None
      \<or> (\<exists>t. getItem ''stockSearchHistory'' = Some t \<and> JSON_parse t = None) \<longrightarrow>
        restoreHistory JSON_parse getItem initial = Inr initial
        \<and> mount JSON_parse getItem initial = restoreFavorites JSON_parse getItem initial"
  proof
    assume "getItem ''stockSearchHistory'' = None
      \<or> (\<exists>t. getItem ''stockSearchHistory'' = Some t \<and> JSON_parse t = None)"
    then have "restored JSON_parse (getItem ''stockSearchHistory'') [] = Inr []"
      by (rule restored_missing)
    then have "restoreHistory JSON_parse getItem initial = Inr initial"
      by (simp add: restoreHistory_def initial_def)
    then show "restoreHistory JSON_parse getItem initial = Inr initial
        \<and> mount JSON_parse getItem initial = restoreFavorites JSON_parse getItem initial"
      by (simp add: mount_def)
  qed
  have f: "getItem ''stockFavorites'' = None
      \<or> (\<exists>t. getItem ''stockFavorites'' = Some t \<and> JSON_parse t = None) \<longrightarrow>
        restoreFavorites JSON_parse getItem initial = Inr initial
        \<and> mount JSON_parse getItem initial = restoreHistory JSON_parse getItem initial"
  proof
    assume "getItem ''stockFavorites'' = None
      \<or> (\<exists>t. getItem ''stockFavorites'' = Some t \<and> JSON_parse t = None)"
    then have r: "restored JSON_parse (getItem ''stockFavorites'') [] = Inr []"
      by (rule restored_missing)
    then have a: "restoreFavorites JSON_parse getItem initial = Inr initial"
      by (simp add: restoreFavorites_def initial_def)
    have b: "mount JSON_parse getItem initial = restoreHistory JSON_parse getItem initial"
    proof (cases "restoreHistory JSON_parse getItem initial")
      case (Inl v)
      then show ?thesis by (simp add: mount_def)
    next
      case (Inr s)
      then have "favorites s = []" using restoreHistory_error [OF Inr] by (simp add: initial_def)
      then have "restoreFavorites JSON_parse getItem s = Inr s"
        using r by (simp add: restoreFavorites_def)
      then show ?thesis using Inr by (simp add: mount_def)
    qed
    from a b show "restoreFavorites JSON_parse getItem initial = Inr initial
        \<and> mount JSON_parse getItem initial = restoreHistory JSON_parse getItem initial"
      by blast
  qed
  have e: "mount JSON_parse getItem st = Inr st' \<longrightarrow> error st' = error st"
  proof
    assume m: "mount JSON_parse getItem st = Inr st'"
    then obtain s where s: "restoreHistory JSON_parse getItem st = Inr s"
      and s': "restoreFavorites JSON_parse getItem s = Inr st'"
      by (auto simp: mount_def split: sum.splits)
    show "error st' = error st"
      using restoreHistory_error [OF s] restoreFavorites_error [OF s'] by simp
  qed
  from h f e show ?thesis by blast
qed

theorem restore_defaults_to_empty_witness:
  "mount (\<lambda>t. if t = ''[\"AAPL\"]'' then Some (JArr [JStr ''AAPL'']) else None)
         (\<lambda>k. if k = ''stockSearchHistory'' then Some ''{not json'' else
               if k = ''stockFavorites'' then Some ''[\"AAPL\"]'' else None) initial
     = Inr (initial\<lparr>favorites := [''AAPL'']\<rparr>)
   \<and> mount (\<lambda>t. if t = ''[\"AAPL\"]'' then Some (JArr [JStr ''AAPL'']) else None)
         (\<lambda>k. if k = ''stockSearchHistory'' then Some ''[\"AAPL\"]'' else None) initial
     = Inr (initial\<lparr>history := [''AAPL'']\<rparr>)"
proof -
  let ?P = "\<lambda>t. if t = ''[\"AAPL\"]'' then Some (JArr [JStr ''AAPL'']) else None"
  let ?g1 = "\<lambda>k. if k = ''stockSearchHistory'' then Some ''{not json'' else
               if k = ''stockFavorites'' then Some ''[\"AAPL\"]'' else None"
  let ?g2 = "\<lambda>k. if k = ''stockSearchHistory'' then Some ''[\"AAPL\"]'' else None"
  have a: "\<exists>t. ?g1 ''stockSearchHistory'' = Some t \<and> ?P t = None" by simp
  have b: "?g2 ''stockFavorites'' = None" by simp
  have 1: "mount ?P ?g1 initial = restoreFavorites ?P ?g1 initial"
    using restore_defaults_to_empty [of ?g1 ?P initial initial] a by blast
  have 2: "mount ?P ?g2 initial = restoreHistory ?P ?g2 initial"
    using restore_defaults_to_empty [of ?g2 ?P initial initial] b by blast
  have 3: "restoreFavorites ?P ?g1 initial = Inr (initial\<lparr>favorites := [''AAPL'']\<rparr>)"
    by (simp add: restoreFavorites_def restored_def)
  have 4: "restoreHistory ?P ?g2 initial = Inr (initial\<lparr>history := [''AAPL'']\<rparr>)"
    by (simp add: restoreHistory_def restored_def)
  from 1 2 3 4 show ?thesis by simp
qed

section \<open>A fetch that stores a snapshot\<close>

lemma readBar_Inr:
  "readBar num day d = Inr bar \<Longrightarrow>
   \<exists>v. d = Some v \<and> v \<noteq> JNull \<and> date bar = day \<and> close bar = num (field v ''4. close'')"
  by (cases d; cases "the d") (auto simp: readBar_def)

lemma readBars_dates: "readBars num ts days = Inr ms \<Longrightarrow> map date ms = days"
proof (induction days arbitrary: ms)
  case Nil
  then show ?case by simp
next
  case (Cons day days)
  then obtain bar bars where b: "readBar num day (field ts day) = Inr bar"
    and bs: "readBars num ts days = Inr bars" and ms: "ms = bar # bars"
    by (auto split: sum.splits)
  have "date bar = day" using readBar_Inr [OF b] by blast
  then show ?case using Cons.IH [OF bs] ms by simp
qed

lemma readBars_close:
  "readBars num ts days = Inr ms \<Longrightarrow> i < length days \<Longrightarrow>
   \<exists>v. field ts (days ! i) = Some v \<and> v \<noteq> JNull \<and> close (ms ! i) = num (field v ''4. close'')"
proof (induction days arbitrary: ms i)
  case Nil
  then show ?case by simp
next
  case (Cons day days)
  then obtain bar bars where b: "readBar num day (field ts day) = Inr bar"
    and bs: "readBars num ts days = Inr bars" and ms: "ms = bar # bars"
    by (auto split: sum.splits)
  show ?case
  proof (cases i)
    case 0
    then show ?thesis using readBar_Inr [OF b] ms by auto
  next
    case (Suc j)
    then have "j < length days" using Cons.prems(2) by simp
    then show ?thesis using Cons.IH [OF bs, of j] ms Suc by simp
  qed
qed

lemma parseSeries_Inr:
  assumes "parseSeries num ts = Inr (sd, ms)"
  shows "readBars num ts (take 10 (rev (sort (Object_keys ts)))) = Inr ms"
    and "rev (sort (Object_keys ts)) \<noteq> []"
    and "readPrevClose num ts (rev (sort (Object_keys ts))) = Inr (prevClose sd)"
    and "date sd = hd (rev (sort (Object_keys ts)))"
  using assms
  by (auto simp: parseSeries_def Let_def split: sum.splits list.splits dest: readBar_Inr)

lemma readPrevClose_Inr:
  assumes "readPrevClose num ts dates = Inr p"
  shows "(p = None) = (length dates < 2)"
    and "2 \<le> length dates \<Longrightarrow>
         \<exists>bar. field ts (dates ! 1) = Some bar \<and> bar \<noteq> JNull \<and> p = Some (num (field bar ''4. close''))"
proof -
  show "(p = None) = (length dates < 2)"
    using assms by (auto simp: readPrevClose_def split: if_splits sum.splits)
  assume two: "2 \<le> length dates"
  then have g: "get (field ts (dates ! 1)) ''4. close'' \<noteq> Inl TypeError"
    using assms by (auto simp: readPrevClose_def split: if_splits sum.splits exn.splits)
  then obtain bar where bar: "field ts (dates ! 1) = Some bar"
    by (cases "field ts (dates ! 1)") auto
  with g have nn: "bar \<noteq> JNull" by auto
  then have "get (Some bar) ''4. close'' = Inr (field bar ''4. close'')"
    by (cases bar) simp_all
  then show "\<exists>bar. field ts (dates ! 1) = Some bar \<and> bar \<noteq> JNull \<and> p = Some (num (field bar ''4. close''))"
    using assms two bar nn by (auto simp: readPrevClose_def)
qed

lemma received_cases:
  "received num s res = Inr (effs, ret) \<Longrightarrow>
     (\<exists>sd ms data ts. effs = [SetStockData (Some sd), SetMultiDayData ms, AddToHistory s] \<and> \<not> ret
        \<and> ok res \<and> body_json res = Some data \<and> field data ''Time Series (Daily)'' = Some ts
        \<and> truthy (Some ts) \<and> parseSeries num ts = Inr (sd, ms))
     \<or> (\<forall>e \<in> set effs. \<exists>m b. e = SetError m \<or> e = SetLoading b)"
proof -
  assume r: "received num s res = Inr (effs, ret)"
  then obtain data where d: "body_json res = Some data"
    by (cases "body_json res") (auto simp: received_def)
  show ?thesis
  proof (cases "ok res")
    case False
    then show ?thesis using r d
      by (auto simp: received_def split: sum.splits)
  next
    case True
    show ?thesis
    proof (cases "get (Some data) ''Time Series (Daily)''")
      case (Inl e)
      then show ?thesis using r d True by (simp add: received_def)
    next
      case (Inr tso)
      then have f: "tso = field data ''Time Series (Daily)''"
        by (cases data) auto
      show ?thesis
      proof (cases tso)
        case None
        then show ?thesis using r d True Inr by (auto simp: received_def)
      next
        case (Some ts)
        show ?thesis
        proof (cases "truthy (Some ts)")
          case False
          then show ?thesis using r d True Inr Some by (auto simp: received_def)
        next
          case t: True
          then show ?thesis using r d True Inr Some f
            by (auto simp: received_def split: sum.splits)
        qed
      qed
    qed
  qed
qed

lemma foldl_messages_only:
  "\<forall>e \<in> set effs. \<exists>m b. e = SetError m \<or> e = SetLoading b \<Longrightarrow>
   stockData (foldl apply_effect st effs) = stockData st"
proof (induction effs arbitrary: st)
  case Nil
  then show ?case by simp
next
  case (Cons e effs)
  then have "stockData (apply_effect st e) = stockData st" by auto
  then show ?case using Cons by simp
qed

lemma fetched_success:
  assumes "stockData (fetched num fetch st) = Some sd"
  shows "\<exists>res data ts. symbol st \<noteq> [] \<and> fetch (gateway_url (symbol st)) = Resolved res \<and> ok res
     \<and> body_json res = Some data \<and> field data ''Time Series (Daily)'' = Some ts \<and> truthy (Some ts)
     \<and> parseSeries num ts = Inr (sd, multiDayData (fetched num fetch st))"
proof -
  have ne: "symbol st \<noteq> []"
    using assms by (auto simp: fetched_def fetchStock_def)
  let ?u = "gateway_url (symbol st)"
  let ?pre = "[SetError (JStr []), SetStockData None, SetMultiDayData [], SetLoading True, Request ?u]"
  let ?st0 = "foldl apply_effect st ?pre"
  have st0: "stockData ?st0 = None" by simp
  obtain res where res: "fetch ?u = Resolved res"
    using assms ne by (cases "fetch ?u") (auto simp: fetched_def fetchStock_def)
  obtain effs ret where rc: "received num (symbol st) res = Inr (effs, ret)"
    using assms ne res by (cases "received num (symbol st) res") (auto simp: fetched_def fetchStock_def)
  have run: "fetched num fetch st = foldl apply_effect ?st0 (if ret then effs else effs @ [SetLoading False])"
    using ne res rc by (simp add: fetched_def fetchStock_def)
  from received_cases [OF rc] show ?thesis
  proof
    assume "\<exists>sd ms data ts. effs = [SetStockData (Some sd), SetMultiDayData ms, AddToHistory (symbol st)] \<and> \<not> ret
        \<and> ok res \<and> body_json res = Some data \<and> field data ''Time Series (Daily)'' = Some ts
        \<and> truthy (Some ts) \<and> parseSeries num ts = Inr (sd, ms)"
    then obtain sd' ms data ts where
      effs: "effs = [SetStockData (Some sd'), SetMultiDayData ms, AddToHistory (symbol st)]" and nret: "\<not> ret"
      and rest: "ok res" "body_json res = Some data" "field data ''Time Series (Daily)'' = Some ts"
        "truthy (Some ts)" "parseSeries num ts = Inr (sd', ms)"
      by blast
    have "stockData (fetched num fetch st) = Some sd' \<and> multiDayData (fetched num fetch st) = ms"
      using run effs nret by (simp add: addToHistory_def)
    then show ?thesis using assms ne res rest by auto
  next
    assume only: "\<forall>e \<in> set effs. \<exists>m b. e = SetError m \<or> e = SetLoading b"
    then have "\<forall>e \<in> set (if ret then effs else effs @ [SetLoading False]). \<exists>m b. e = SetError m \<or> e = SetLoading b"
      by auto
    then have "stockData (fetched num fetch st) = stockData ?st0"
      using run foldl_messages_only by metis
    then show ?thesis using assms st0 by simp
  qed
qed

lemma descending_dates:
  "sorted_wrt (\<lambda>a b. b < a) (rev (sort (Object_keys ts)))"
proof -
  have "sorted_wrt (<) (sort (Object_keys ts))"
    by (simp add: strict_sorted_iff distinct_Object_keys)
  then show ?thesis by (simp add: sorted_wrt_rev)
qed

lemma window_is_newest:
  assumes "sorted_wrt (\<lambda>a b. b < a) ds"
  shows "\<forall>d \<in> set (drop n ds). \<forall>d' \<in> set (take n ds). d < d'"
proof -
  have "sorted_wrt (\<lambda>a b. b < a) (take n ds @ drop n ds)" using assms by simp
  then show ?thesis unfolding sorted_wrt_append by blast
qed

text \<open>
  C1. After a fetch that stored a snapshot, for the time series \<open>ts\<close> of the
  payload: \<^verbatim>\<open>prevClose\<close> is \<^verbatim>\<open>null\<close> exactly when \<open>ts\<close> has fewer than two
  keys; with two keys or more it is the number read from \<^verbatim>\<open>'4. close'\<close> of the
  entry under the second key of the descending sort, which is the close of the
  second bar of the series.
\<close>

theorem snapshot_previous_close:
  "stockData (fetched num fetch st) = Some sd \<and> fetch (gateway_url (symbol st)) = Resolved res
     \<and> body_json res = Some data \<and> field data ''Time Series (Daily)'' = Some ts \<longrightarrow>
     (prevClose sd = None) = (length (Object_keys ts) < 2)
     \<and> (2 \<le> length (Object_keys ts) \<longrightarrow>
          (\<exists>bar. field ts (rev (sort (Object_keys ts)) ! 1) = Some bar
             \<and> prevClose sd = Some (num (field bar ''4. close''))
             \<and> prevClose sd = Some (close (multiDayData (fetched num fetch st) ! 1))
             \<and> date (multiDayData (fetched num fetch st) ! 1) = rev (sort (Object_keys ts)) ! 1))"
proof (intro impI)
  assume h: "stockData (fetched num fetch st) = Some sd \<and> fetch (gateway_url (symbol st)) = Resolved res
     \<and> body_json res = Some data \<and> field data ''Time Series (Daily)'' = Some ts"
  let ?dates = "rev (sort (Object_keys ts))"
  let ?ms = "multiDayData (fetched num fetch st)"
  from fetched_success [of num fetch st sd] h
  have ps: "parseSeries num ts = Inr (sd, ?ms)" by auto
  note bars = parseSeries_Inr(1) [OF ps] and prev = parseSeries_Inr(3) [OF ps]
  have len: "length ?dates = length (Object_keys ts)" by simp
  have a: "(prevClose sd = None) = (length (Object_keys ts) < 2)"
    using readPrevClose_Inr(1) [OF prev] len by simp
  have b: "2 \<le> length (Object_keys ts) \<longrightarrow>
          (\<exists>bar. field ts (?dates ! 1) = Some bar
             \<and> prevClose sd = Some (num (field bar ''4. close''))
             \<and> prevClose sd = Some (close (?ms ! 1))
             \<and> date (?ms ! 1) = ?dates ! 1)"
  proof
    assume two: "2 \<le> length (Object_keys ts)"
    then have two': "2 \<le> length ?dates" using len by simp
    from readPrevClose_Inr(2) [OF prev two'] obtain bar where
      bar: "field ts (?dates ! 1) = Some bar" "prevClose sd = Some (num (field bar ''4. close''))"
      by blast
    have i: "1 < length (take 10 ?dates)" using two' by simp
    from readBars_close [OF bars i] bar(1) two'
    have c: "close (?ms ! 1) = num (field bar ''4. close'')" by simp
    have "map date ?ms = take 10 ?dates" using readBars_dates [OF bars] .
    then have "map date ?ms ! 1 = take 10 ?dates ! 1" by simp
    moreover have "1 < length ?ms" using i readBars_dates [OF bars] by (metis length_map)
    ultimately have d: "date (?ms ! 1) = ?dates ! 1" by simp
    show "\<exists>bar. field ts (?dates ! 1) = Some bar
             \<and> prevClose sd = Some (num (field bar ''4. close''))
             \<and> prevClose sd = Some (close (?ms ! 1))
             \<and> date (?ms ! 1) = ?dates ! 1"
      using bar c d by simp
  qed
  from a b show "(prevClose sd = None) = (length (Object_keys ts) < 2)
     \<and> (2 \<le> length (Object_keys ts) \<longrightarrow>
          (\<exists>bar. field ts (?dates ! 1) = Some bar
             \<and> prevClose sd = Some (num (field bar ''4. close''))
             \<and> prevClose sd = Some (close (?ms ! 1))
             \<and> date (?ms ! 1) = ?dates ! 1))"
    by blast
qed

text \<open>
  C7. After a fetch that stored a snapshot, for the time series \<open>ts\<close> of the
  payload with \<open>n\<close> keys: the series has \<open>min 10 n\<close> bars, their dates are the
  first ten keys of the descending sort, strictly descending, and every key left
  out is older than every date kept.
\<close>

theorem recent_series_window:
  "stockData (fetched num fetch st) = Some sd \<and> fetch (gateway_url (symbol st)) = Resolved res
     \<and> body_json res = Some data \<and> field data ''Time Series (Daily)'' = Some ts \<longrightarrow>
     length (multiDayData (fetched num fetch st)) = min 10 (length (Object_keys ts))
     \<and> map date (multiDayData (fetched num fetch st)) = take 10 (rev (sort (Object_keys ts)))
     \<and> sorted_wrt (\<lambda>a b. b < a) (map date (multiDayData (fetched num fetch st)))
     \<and> set (map date (multiDayData (fetched num fetch st))) \<subseteq> set (Object_keys ts)
     \<and> (\<forall>d \<in> set (Object_keys ts) - set (map date (multiDayData (fetched num fetch st))).
          \<forall>d' \<in> set (map date (multiDayData (fetched num fetch st))). d < d')"
proof (intro impI)
  assume h: "stockData (fetched num fetch st) = Some sd \<and> fetch (gateway_url (symbol st)) = Resolved res
     \<and> body_json res = Some data \<and> field data ''Time Series (Daily)'' = Some ts"
  let ?dates = "rev (sort (Object_keys ts))"
  let ?ms = "multiDayData (fetched num fetch st)"
  from fetched_success [of num fetch st sd] h
  have ps: "parseSeries num ts = Inr (sd, ?ms)" by auto
  have m: "map date ?ms = take 10 ?dates"
    using readBars_dates [OF parseSeries_Inr(1) [OF ps]] .
  have "length (map date ?ms) = min 10 (length (Object_keys ts))"
    unfolding m by simp
  then have l: "length ?ms = min 10 (length (Object_keys ts))" by simp
  have s: "sorted_wrt (\<lambda>a b. b < a) (map date ?ms)"
    unfolding m using descending_dates [of ts] by simp
  have sub: "set (map date ?ms) \<subseteq> set (Object_keys ts)"
    unfolding m using set_take_subset [of 10 ?dates] by simp
  have "set (Object_keys ts) = set (take 10 ?dates) \<union> set (drop 10 ?dates)"
    using set_append [of "take 10 ?dates" "drop 10 ?dates"] by simp
  then have "set (Object_keys ts) - set (map date ?ms) \<subseteq> set (drop 10 ?dates)"
    unfolding m by blast
  then have w: "\<forall>d \<in> set (Object_keys ts) - set (map date ?ms). \<forall>d' \<in> set (map date ?ms). d < d'"
    using window_is_newest [OF descending_dates, of 10 ts] unfolding m by blast
  from l m s sub w show "length ?ms = min 10 (length (Object_keys ts))
     \<and> map date ?ms = take 10 ?dates
     \<and> sorted_wrt (\<lambda>a b. b < a) (map date ?ms)
     \<and> set (map date ?ms) \<subseteq> set (Object_keys ts)
     \<and> (\<forall>d \<in> set (Object_keys ts) - set (map date ?ms). \<forall>d' \<in> set (map date ?ms). d < d')"
    by blast
qed

lemma example_fetched:
  "fetched toNumber (\<lambda>url. Resolved \<lparr>status = 200, body_text = [], body_json = Some example_payload\<rparr>)
      (initial\<lparr>symbol := ''IBM''\<rparr>)
  = \<lparr>symbol = ''IBM'',
      stockData =
        Some \<lparr>date = ''2024-01-02'', open = Finite 10, high = Finite 12,
                low = Finite 9, close = Finite 11, volume = Finite 100,
                prevClose = Some (Finite (19 / 2))\<rparr>,
      error = JStr [], loading = False, history = [''IBM''], favorites = [],
      multiDayData =
        [\<lparr>date = ''2024-01-02'', open = Finite 10, high = Finite 12,
            low = Finite 9, close = Finite 11, volume = Finite 100\<rparr>,
         \<lparr>date = ''2024-01-01'', open = Finite 9, high = Finite 10,
            low = Finite 8, close = Finite (19 / 2), volume = Finite 80\<rparr>]\<rparr>"
  by code_simp

lemma busy_fetched_dates:
  "map date (multiDayData (fetched toNumber
      (\<lambda>url. Resolved \<lparr>status = 200, body_text = [], body_json = Some busy_payload\<rparr>)
      (initial\<lparr>symbol := ''IBM''\<rparr>)))
   = [''2024-01-11'', ''2024-01-10'', ''2024-01-09'', ''2024-01-08'', ''2024-01-07'',
      ''2024-01-06'', ''2024-01-05'', ''2024-01-04'', ''2024-01-03'', ''2024-01-02'']"
  by code_simp

lemma busy_fetched_stock:
  "stockData (fetched toNumber
      (\<lambda>url. Resolved \<lparr>status = 200, body_text = [], body_json = Some busy_payload\<rparr>)
      (initial\<lparr>symbol := ''IBM''\<rparr>))
   = Some \<lparr>date = ''2024-01-11'', open = NaN, high = NaN, low = NaN, close = Finite 11,
       volume = NaN, prevClose = Some (Finite 10)\<rparr>"
  by code_simp

theorem snapshot_previous_close_witness:
  "\<exists>sd. stockData (fetched toNumber
            (\<lambda>url. Resolved \<lparr>status = 200, body_text = [], body_json = Some example_payload\<rparr>)
            (initial\<lparr>symbol := ''IBM''\<rparr>)) = Some sd
     \<and> prevClose sd = Some (Finite (19 / 2))
     \<and> (prevClose sd = None) = (length (Object_keys (JObj
          [(''2024-01-02'', JObj [(''1. open'', JStr ''10''), (''2. high'', JStr ''12''),
              (''3. low'', JStr ''9''), (''4. close'', JStr ''11''), (''5. volume'', JStr ''100'')]),
           (''2024-01-01'', JObj [(''1. open'', JStr ''9''), (''2. high'', JStr ''10''),
              (''3. low'', JStr ''8''), (''4. close'', JStr ''9.5''), (''5. volume'', JStr ''80'')])])) < 2)"
proof -
  let ?res = "\<lparr>status = 200, body_text = [], body_json = Some example_payload\<rparr>"
  let ?fetch = "\<lambda>url :: string. Resolved ?res"
  let ?st = "initial\<lparr>symbol := ''IBM''\<rparr>"
  let ?sd = "\<lparr>date = ''2024-01-02'', open = Finite 10, high = Finite 12,
                low = Finite 9, close = Finite 11, volume = Finite 100,
                prevClose = Some (Finite (19 / 2))\<rparr>"
  let ?ts = "JObj
          [(''2024-01-02'', JObj [(''1. open'', JStr ''10''), (''2. high'', JStr ''12''),
              (''3. low'', JStr ''9''), (''4. close'', JStr ''11''), (''5. volume'', JStr ''100'')]),
           (''2024-01-01'', JObj [(''1. open'', JStr ''9''), (''2. high'', JStr ''10''),
              (''3. low'', JStr ''8''), (''4. close'', JStr ''9.5''), (''5. volume'', JStr ''80'')])]"
  have a: "stockData (fetched toNumber ?fetch ?st) = Some ?sd"
    by (simp add: example_fetched)
  have b: "?fetch (gateway_url (symbol ?st)) = Resolved ?res" by simp
  have c: "body_json ?res = Some example_payload" by simp
  have d: "field example_payload ''Time Series (Daily)'' = Some ?ts"
    by (simp add: example_payload_def)
  have "(prevClose ?sd = None) = (length (Object_keys ?ts) < 2)"
    using snapshot_previous_close [of toNumber ?fetch ?st ?sd ?res example_payload ?ts] a b c d
    by blast
  then show ?thesis using a by simp
qed

theorem recent_series_window_witness:
  "length (multiDayData (fetched toNumber
      (\<lambda>url. Resolved \<lparr>status = 200, body_text = [], body_json = Some busy_payload\<rparr>)
      (initial\<lparr>symbol := ''IBM''\<rparr>))) = 10
   \<and> map date (multiDayData (fetched toNumber
      (\<lambda>url. Resolved \<lparr>status = 200, body_text = [], body_json = Some busy_payload\<rparr>)
      (initial\<lparr>symbol := ''IBM''\<rparr>)))
     = [''2024-01-11'', ''2024-01-10'', ''2024-01-09'', ''2024-01-08'', ''2024-01-07'',
        ''2024-01-06'', ''2024-01-05'', ''2024-01-04'', ''2024-01-03'', ''2024-01-02'']"
proof -
  let ?res = "\<lparr>status = 200, body_text = [], body_json = Some busy_payload\<rparr>"
  let ?fetch = "\<lambda>url :: string. Resolved ?res"
  let ?st = "initial\<lparr>symbol := ''IBM''\<rparr>"
  let ?sd = "\<lparr>date = ''2024-01-11'', open = NaN, high = NaN, low = NaN, close = Finite 11,
       volume = NaN, prevClose = Some (Finite 10)\<rparr>"
  obtain ts where d: "field busy_payload ''Time Series (Daily)'' = Some ts"
    and n: "length (Object_keys ts) = 11"
    by (simp add: busy_payload_def)
  have a: "stockData (fetched toNumber ?fetch ?st) = Some ?sd"
    by (rule busy_fetched_stock)
  have b: "?fetch (gateway_url (symbol ?st)) = Resolved ?res" by simp
  have c: "body_json ?res = Some busy_payload" by simp
  have "length (multiDayData (fetched toNumber ?fetch ?st)) = min 10 (length (Object_keys ts))"
    using recent_series_window [of toNumber ?fetch ?st ?sd ?res busy_payload ts] a b c d
    by blast
  then show ?thesis using n busy_fetched_dates by simp
qed

section \<open>The change indicator shown\<close>














end
